theory Spec2Isabelle
  imports Main "HOL-Library.Sublist"
begin

section \<open>JavaScript values\<close>

text \<open>
  The dialogs of the bot pass plain JavaScript data around: the record \<open>userinfo\<close>, the
  entity objects extracted by the recogniser, strings, flags, and \<open>undefined\<close> for
  whatever is missing. The values modelled are \<open>undefined\<close>, \<open>null\<close>, booleans,
  strings and plain objects (string-keyed own data properties, the prototype
  \<open>Object.prototype\<close>). Numbers, arrays and functions do not occur in the fields the
  dialogs read and are left out; so no property of a modelled object is callable. A string
  is the list of its bytes in UTF-8.
\<close>

datatype jsval =
    Undefined
  | Null
  | Bool bool
  | Str string
  | Obj "string \<Rightarrow> jsval option"

type_synonym obj = "string \<Rightarrow> jsval option"

datatype error = TypeError | Error string

text \<open>Sequencing of computations that may throw.\<close>

definition and_then :: "error + 'a \<Rightarrow> ('a \<Rightarrow> error + 'b) \<Rightarrow> error + 'b" where
  "and_then r f = (case r of Inl e \<Rightarrow> Inl e | Inr v \<Rightarrow> f v)"

text \<open>\<open>!v\<close> is \<open>\<not> js_truthy v\<close>: the falsy values are \<open>undefined\<close>, \<open>null\<close>,
  \<open>false\<close> and the empty string; every object is truthy.\<close>

fun js_truthy :: "jsval \<Rightarrow> bool" where
  "js_truthy Undefined = False"
| "js_truthy Null = False"
| "js_truthy (Bool b) = b"
| "js_truthy (Str s) = (s \<noteq> [])"
| "js_truthy (Obj m) = True"

text \<open>\<open>o.k\<close> for an object \<open>o\<close>: the property's value, and \<open>undefined\<close> for a
  property the object does not have. (None of the keys the dialogs read is a property of
  \<open>Object.prototype\<close>.)\<close>

definition js_get :: "obj \<Rightarrow> string \<Rightarrow> jsval" where
  "js_get m k = (case m k of None \<Rightarrow> Undefined | Some v \<Rightarrow> v)"

text \<open>\<open>v.k\<close> for any value \<open>v\<close>: a \<open>TypeError\<close> is thrown on \<open>undefined\<close> and
  \<open>null\<close>, and a boolean or a string has none of the data properties the dialogs read
  (\<open>type\<close>, \<open>visa_type\<close>, \<open>work_type\<close>, \<open>travelDate\<close>, \<open>from\<close>, \<open>to\<close>, \<open>airport\<close>,
  \<open>isConfigured\<close>), so the result there is \<open>undefined\<close>.\<close>

fun js_member :: "jsval \<Rightarrow> string \<Rightarrow> error + jsval" where
  "js_member Undefined k = Inl TypeError"
| "js_member Null k = Inl TypeError"
| "js_member (Bool b) k = Inr Undefined"
| "js_member (Str s) k = Inr Undefined"
| "js_member (Obj m) k = Inr (js_get m k)"

text \<open>
  The conversion of an object to a primitive value asks the object for \<open>valueOf\<close> and
  \<open>toString\<close> and calls the ones that are callable. An own property of either name
  hides the method of \<open>Object.prototype\<close> and, not being callable, is passed over. With
  no own \<open>toString\<close> the inherited one answers \<open>[object Object]\<close> (the inherited
  \<open>valueOf\<close> returns the object itself and does not count). With an own \<open>toString\<close>
  no method yields a primitive and a \<open>TypeError\<close> is thrown.
\<close>

definition js_object_to_primitive :: "obj \<Rightarrow> error + string" where
  "js_object_to_primitive m =
     (case m ''toString'' of None \<Rightarrow> Inr ''[object Object]'' | Some v \<Rightarrow> Inl TypeError)"

text \<open>\<open>ToString\<close>, as string concatenation and \<open>Array.prototype.join\<close> apply it.\<close>

fun js_to_string :: "jsval \<Rightarrow> error + string" where
  "js_to_string Undefined = Inr ''undefined''"
| "js_to_string Null = Inr ''null''"
| "js_to_string (Bool b) = Inr (if b then ''true'' else ''false'')"
| "js_to_string (Str s) = Inr s"
| "js_to_string (Obj m) = js_object_to_primitive m"

text \<open>The values whose conversion runs no property of their own: the primitive values and
  the objects with neither an own \<open>toString\<close> nor an own \<open>valueOf\<close>.\<close>

fun js_plain :: "jsval \<Rightarrow> bool" where
  "js_plain (Obj m) = (m ''toString'' = None \<and> m ''valueOf'' = None)"
| "js_plain v = True"

text \<open>\<open>v == s\<close> for a string literal \<open>s\<close> of the source. Every literal the source
  compares with (\<open>'f1'\<close>, \<open>"on campus"\<close>, \<open>"cpt"\<close>, \<open>"opt"\<close>, \<open>'eligibility'\<close>,
  \<open>"visa_information"\<close>, \<open>"procedure_auth"\<close>) converts to the number \<open>NaN\<close>, so a
  boolean, which \<open>==\<close> compares as a number, is never equal to it; \<open>undefined\<close> and
  \<open>null\<close> equal only each other; an object is compared through its primitive value,
  and the comparison throws when the conversion does.\<close>

fun js_loose_eq_lit :: "jsval \<Rightarrow> string \<Rightarrow> error + bool" where
  "js_loose_eq_lit Undefined s = Inr False"
| "js_loose_eq_lit Null s = Inr False"
| "js_loose_eq_lit (Bool b) s = Inr False"
| "js_loose_eq_lit (Str t) s = Inr (t = s)"
| "js_loose_eq_lit (Obj m) s = and_then (js_object_to_primitive m) (\<lambda>p. Inr (p = s))"


section \<open>The detail-collection dialog (bookingDialog.js)\<close>

text \<open>
  \<open>BookingDialog\<close> registers a waterfall of three steps. A step receives the step context,
  of which it uses \<open>options\<close> (the record \<open>userinfo\<close> the dialog was begun with, the same
  object in all three steps, updated in place) and \<open>result\<close> (the value the previous step
  handed to \<open>stepContext.next\<close>). None of the three steps prompts: each ends in
  \<open>stepContext.next(v)\<close>. A step is therefore a function of \<open>options\<close> and \<open>result\<close>
  to the updated \<open>options\<close> and \<open>v\<close>. (The base class \<open>CancelAndHelpDialog\<close> lies
  outside the two dialog files modelled here; its handling of interruptions is taken to act on a dialog
  that is continued on a later turn, which this one, never waiting, is not.)
\<close>

type_synonym step = "obj \<Rightarrow> jsval \<Rightarrow> obj \<times> jsval"

definition visaTypeStep :: step where
  "visaTypeStep options result =
     (let userinfo = (if \<not> js_truthy (js_get options ''visa_type'')
                      then options(''visa_type'' \<mapsto> Str ''f1'') else options)
      in (userinfo, js_get userinfo ''visa_type''))"

definition workTypeStep :: step where
  "workTypeStep options result =
     (let userinfo = options(''visa_type'' \<mapsto> result);
          userinfo = (if \<not> js_truthy (js_get userinfo ''work_type'')
                      then userinfo(''work_type'' \<mapsto> Str ''opt'') else userinfo)
      in (userinfo, js_get userinfo ''work_type''))"

definition occupationStatusStep :: step where
  "occupationStatusStep options result =
     (let userinfo = options(''work_type'' \<mapsto> result);
          userinfo = (if \<not> js_truthy (js_get userinfo ''occupation_status'')
                      then userinfo(''occupation_status'' \<mapsto> Str ''student'') else userinfo)
      in (userinfo, Obj userinfo))"

text \<open>The waterfall runs its steps in order; the first step's \<open>result\<close> is \<open>undefined\<close>,
  and the value the last step hands to \<open>next\<close> ends the dialog and is its result.\<close>

fun waterfall :: "step list \<Rightarrow> obj \<Rightarrow> jsval \<Rightarrow> jsval" where
  "waterfall [] options result = result"
| "waterfall (s # steps) options result =
     (case s options result of (options', result') \<Rightarrow> waterfall steps options' result')"

definition bookingDialog :: "obj \<Rightarrow> jsval" where
  "bookingDialog options =
     waterfall [visaTypeStep, workTypeStep, occupationStatusStep] options Undefined"


section \<open>The response table (mainDialog.js, messagefunc)\<close>

text \<open>The three instructional texts of the \<open>f1\<close> branch, as the source spells them.\<close>

definition on_campus_text :: string where
  "on_campus_text =
     ''On-campus employment must meet one of the following definitions: \<newline>'' @
     ''The employment takes place on school premises and the employee (student) '' @
     ''is paid by the university for the work. Examples include GSI/GSR '' @
     ''positions or jobs at dining halls, campus libraries, etc. This is the '' @
     ''most common type of on-campus employment. \<newline>'' @
     ''The employment takes place at a commercial firm (e.g., bookstore, coffee '' @
     ''shop) that is located on the university floor campus and provides '' @
     ''services for students on campus. \<newline>'' @
     ''The employment takes place at an off-campus location that is '' @
     ''educationally affiliated with UC Berkeley. The affiliation must be '' @
     ''associated with the school's established curriculum or related to '' @
     ''contractually-funded research projects at the post-graduate level. The '' @
     ''employment must be an integral part of the student's educational program.''"

definition cpt_text :: string where
  "cpt_text =
     ''Speak to a student advisor at your university to find out more about the '' @
     ''CPT programs available at your institution, the eligibility requirements, '' @
     ''and potential employers. If you'' @ [CHR 0xE2, CHR 0x80, CHR 0x99] @ ''re not yet an international student in '' @
     ''the US consider going through a program like HTIR Work-Study.\<newline>'' @
     ''Take any college required CPT courses necessary to become an eligible '' @
     ''candidate.\<newline>'' @
     ''Obtain a job offer letter on official letterhead from your employer. '' @
     ''Universities typically have a list of specific information this letter '' @
     ''should include, like the address where work will take place.\<newline>'' @
     ''Apply for the college-specific CPT program through your university. Note '' @
     ''that authorization can take a few weeks, so plan ahead. Before beginning '' @
     ''the application process make sure you have all requested documentation '' @
     ''such as proof of class registration.\<newline>'' @
     ''You will receive a document (physical or by email) approving your '' @
     ''application and outlining your CPT start and end date. Print, sign and '' @
     ''make a copy of this document where required.\<newline>'' @
     ''Talk to your employer and send relevant documentation where required.\<newline>'' @
     ''Start the CPT program with your employer on the outlined start date.''"

definition opt_text :: string where
  "opt_text =
     ''Confirm your 12-month OPT information is correct\<newline>'' @
     ''Complete and submit your STEM OPT Extension I-20 Request to ISS \<newline>'' @
     ''Pick up New I-20 and prepare your application\<newline>'' @
     ''Mail your application to USCIS.''"

text \<open>
  \<open>messagefunc\<close> compares with \<open>==\<close>, one test after the other, and has no \<open>else\<close>
  after the three work types of the \<open>f1\<close> branch: there the function body ends without
  a \<open>return\<close>, and the call yields \<open>undefined\<close>. A test that throws ends the call.
\<close>

definition messagefunc :: "jsval \<Rightarrow> jsval \<Rightarrow> error + jsval" where
  "messagefunc visa_type work_type =
     and_then (js_loose_eq_lit visa_type ''f1'') (\<lambda>is_f1.
       if is_f1 then
         and_then (js_loose_eq_lit work_type ''on campus'') (\<lambda>is_on_campus.
           if is_on_campus then Inr (Str on_campus_text)
           else
             and_then (js_loose_eq_lit work_type ''cpt'') (\<lambda>is_cpt.
               if is_cpt then Inr (Str cpt_text)
               else
                 and_then (js_loose_eq_lit work_type ''opt'') (\<lambda>is_opt.
                   if is_opt then Inr (Str opt_text)
                   else Inr Undefined)))
       else
         and_then (js_to_string visa_type) (\<lambda>visa.
           Inr (Str (''More information regarding the '' @ visa @
                     '' work authorization rules coming soon! Thanks!''))))"


section \<open>The orchestrator (mainDialog.js)\<close>

text \<open>
  What a step does to the outside is recorded as a list of events, in order: an activity
  sent to the user (\<open>sendActivity(text, text, hint)\<close>, recorded with its text) and the
  query to the recogniser. Logging to the console is not recorded. A step ends by asking
  the dialog framework for one of four things.
\<close>

datatype event = SendActivity jsval | ExecuteLuisQuery

datatype action =
    Next jsval
  | Prompt string jsval
  | BeginDialog string obj
  | ReplaceDialog string obj

type_synonym outcome = "error + event list \<times> action"

record main_dialog =
  luisRecognizer :: jsval
  childDialog :: jsval
  initialDialogId :: string

definition MAIN_WATERFALL_DIALOG :: string where
  "MAIN_WATERFALL_DIALOG = ''mainWaterfallDialog''"

text \<open>The constructor throws on a missing collaborator before it registers anything.
  (\<open>super('MainDialog')\<close> and \<open>addDialog\<close> belong to the framework and are taken to
  return.)\<close>

definition MainDialog :: "jsval \<Rightarrow> jsval \<Rightarrow> error + main_dialog" where
  "MainDialog luisRecognizer' bookingDialog' =
     (if \<not> js_truthy luisRecognizer' then
        Inl (Error ''[MainDialog]: Missing parameter 'luisRecognizer' is required'')
      else if \<not> js_truthy bookingDialog' then
        Inl (Error ''[MainDialog]: Missing parameter 'bookingDialog' is required'')
      else Inr \<lparr> luisRecognizer = luisRecognizer', childDialog = bookingDialog',
                 initialDialogId = MAIN_WATERFALL_DIALOG \<rparr>)"

text \<open>
  The recogniser class lies outside the two dialog files modelled here. What it answers for the
  utterance of a turn is a parameter of the model: the top intent of the query's result
  (\<open>LuisRecognizer.topIntent\<close>, a string) and the value of each of its entity getters.
\<close>

record luis_result =
  topIntent :: string
  visaTypeEntities :: jsval
  workTypeEntities :: jsval
  occupationStatusEntities :: jsval
  fromEntities :: jsval
  toEntities :: jsval
  travelDate :: jsval

text \<open>The fixed texts of the orchestrator.\<close>

definition not_configured_text :: string where
  "not_configured_text =
     ''NOTE: LUIS is not configured. To enable all capabilities, '' @
     ''add `LuisAppId`, `LuisAPIKey` and `LuisAPIHostName` to the .env file.''"

definition didnt_understand_text :: "string \<Rightarrow> string" where
  "didnt_understand_text intent =
     ''Sorry, I didn't get that. Please try asking in a different way (intent was '' @
     intent @ '')''"

definition restart_options :: obj where
  "restart_options = Map.empty(''restartMsg'' \<mapsto> Str ''What else can I do for you?'')"

definition introStep :: "main_dialog \<Rightarrow> obj \<Rightarrow> outcome" where
  "introStep this options =
     and_then (js_member (luisRecognizer this) ''isConfigured'') (\<lambda>isConfigured.
       if \<not> js_truthy isConfigured then
         Inr ([SendActivity (Str not_configured_text)], Next Undefined)
       else
         (let messageText =
                (if js_truthy (js_get options ''restartMsg'') then js_get options ''restartMsg''
                 else Str ''Hi! What would you like to know about your visa and occupation status?'')
          in Inr ([], Prompt ''TextPrompt'' messageText)))"

text \<open>\<open>Array.prototype.join\<close>: an element that is \<open>undefined\<close> or \<open>null\<close>
  contributes the empty string, any other its \<open>ToString\<close>.\<close>

fun join_element :: "jsval \<Rightarrow> error + string" where
  "join_element Undefined = Inr []"
| "join_element Null = Inr []"
| "join_element v = js_to_string v"

fun join :: "jsval list \<Rightarrow> string \<Rightarrow> error + string" where
  "join [] sep = Inr []"
| "join [x] sep = join_element x"
| "join (x # y # ys) sep =
     and_then (join_element x) (\<lambda>first.
     and_then (join (y # ys) sep) (\<lambda>rest. Inr (first @ sep @ rest)))"

text \<open>One of the two tests of \<open>showWarningForUnsupportedCities\<close>: the entity object's
  property \<open>k\<close> (\<open>from\<close> or \<open>to\<close>) is pushed when it is truthy and the object's
  \<open>airport\<close> is not.\<close>

definition unsupportedCity :: "jsval \<Rightarrow> string \<Rightarrow> error + jsval list" where
  "unsupportedCity entities k =
     and_then (js_member entities k) (\<lambda>city.
       if js_truthy city then
         and_then (js_member entities ''airport'') (\<lambda>airport.
           Inr (if \<not> js_truthy airport then [city] else []))
       else Inr [])"

definition showWarningForUnsupportedCities :: "jsval \<Rightarrow> jsval \<Rightarrow> error + event list" where
  "showWarningForUnsupportedCities fromEntities' toEntities' =
     and_then (unsupportedCity fromEntities' ''from'') (\<lambda>cities1.
     and_then (unsupportedCity toEntities' ''to'') (\<lambda>cities2.
       (let unsupportedCities = cities1 @ cities2 in
        if unsupportedCities \<noteq> [] then
          and_then (join unsupportedCities '', '') (\<lambda>joined.
            Inr [SendActivity (Str (''Sorry but the following airports are not supported: '' @
                   joined))])
        else Inr [])))"

definition actStep :: "main_dialog \<Rightarrow> luis_result \<Rightarrow> outcome" where
  "actStep this luisResult =
     and_then (js_member (luisRecognizer this) ''isConfigured'') (\<lambda>isConfigured.
       if \<not> js_truthy isConfigured then
         Inr ([], BeginDialog ''bookingDialog'' Map.empty)
       else if topIntent luisResult = ''eligibility'' then
         and_then (showWarningForUnsupportedCities
                     (visaTypeEntities luisResult) (workTypeEntities luisResult)) (\<lambda>warning.
           Inr (ExecuteLuisQuery # warning,
                BeginDialog ''bookingDialog''
                  (Map.empty(''type'' \<mapsto> Str ''eligibility'',
                     ''visa_type'' \<mapsto> visaTypeEntities luisResult,
                     ''work_type'' \<mapsto> workTypeEntities luisResult,
                     ''occupation_status'' \<mapsto> occupationStatusEntities luisResult))))
       else if topIntent luisResult = ''procedure_auth'' then
         Inr ([ExecuteLuisQuery],
              BeginDialog ''bookingDialog''
                (Map.empty(''visa_type'' \<mapsto> visaTypeEntities luisResult,
                   ''type'' \<mapsto> Str ''procedure_auth'')))
       else if topIntent luisResult = ''visa_information'' then
         Inr ([ExecuteLuisQuery],
              BeginDialog ''bookingDialog''
                (Map.empty(''type'' \<mapsto> Str ''visa_information'',
                   ''visa_type'' \<mapsto> visaTypeEntities luisResult,
                   ''work_type'' \<mapsto> workTypeEntities luisResult)))
       else if topIntent luisResult = ''BookFlight'' then
         and_then (showWarningForUnsupportedCities
                     (fromEntities luisResult) (toEntities luisResult)) (\<lambda>warning.
         and_then (js_member (toEntities luisResult) ''airport'') (\<lambda>destination.
         and_then (js_member (fromEntities luisResult) ''airport'') (\<lambda>origin.
           Inr (ExecuteLuisQuery # warning,
                BeginDialog ''bookingDialog''
                  (Map.empty(''destination'' \<mapsto> destination,
                     ''origin'' \<mapsto> origin,
                     ''travelDate'' \<mapsto> travelDate luisResult))))))
       else if topIntent luisResult = ''GetWeather'' then
         Inr ([ExecuteLuisQuery, SendActivity (Str ''TODO: get weather flow here'')],
              Next Undefined)
       else
         Inr ([ExecuteLuisQuery,
               SendActivity (Str (didnt_understand_text (topIntent luisResult)))],
              Next Undefined))"

text \<open>
  \<open>finalStep\<close> builds a \<open>TimexProperty\<close> of \<open>result.travelDate\<close> and asks it for a
  text that is never used. The library is not part of the repository: what its call does
  on a travel date, return a text or throw, is the parameter \<open>toNaturalLanguage\<close> of the
  step. The reply is chosen by \<open>result["type"]\<close>, tested with \<open>==\<close> against one
  literal after the other.
\<close>

definition finalStep_timex ::
    "(jsval \<Rightarrow> error + string) \<Rightarrow> main_dialog \<Rightarrow> jsval \<Rightarrow> outcome" where
  "finalStep_timex toNaturalLanguage this result =
     (let restart = ReplaceDialog (initialDialogId this) restart_options in
      if js_truthy result then
        and_then (js_member result ''travelDate'') (\<lambda>travelDate'.
        and_then (toNaturalLanguage travelDate') (\<lambda>travelDateMsg.
        and_then (js_member result ''type'') (\<lambda>type.
        and_then
          (and_then (js_loose_eq_lit type ''eligibility'') (\<lambda>is_eligibility.
             if is_eligibility then
               and_then (js_member result ''visa_type'') (\<lambda>v.
               and_then (js_member v ''visa_type'') (\<lambda>visa.
               and_then (js_member result ''work_type'') (\<lambda>w.
               and_then (js_member w ''work_type'') (\<lambda>work.
                 messagefunc visa work))))
             else
               and_then (js_loose_eq_lit type ''visa_information'') (\<lambda>is_visa_information.
                 if is_visa_information then
                   and_then (js_member result ''visa_type'') (\<lambda>v.
                   and_then (js_member v ''visa_type'') (\<lambda>visa.
                   and_then (js_member result ''work_type'') (\<lambda>w.
                   and_then (js_member w ''work_type'') (\<lambda>work.
                     messagefunc visa work))))
                 else
                   and_then (js_loose_eq_lit type ''procedure_auth'') (\<lambda>is_procedure_auth.
                     if is_procedure_auth then
                       and_then (js_member result ''visa_type'') (\<lambda>v.
                       and_then (js_member v ''visa_type'') (\<lambda>visa.
                       and_then (js_member result ''work_type'') (\<lambda>work.
                         messagefunc visa work)))
                     else Inr (Str ''Something is wrong'')))))
          (\<lambda>msg. Inr ([SendActivity msg], restart)))))
      else Inr ([], restart))"

text \<open>The step with a library call that returns (whatever the text: it is not used).\<close>

definition finalStep :: "main_dialog \<Rightarrow> jsval \<Rightarrow> outcome" where
  "finalStep this result = finalStep_timex (\<lambda>travelDate'. Inr []) this result"

text \<open>
  The main waterfall is \<open>introStep\<close>, \<open>actStep\<close>, \<open>finalStep\<close>. After a step that
  ends in \<open>next(v)\<close> the framework runs the following step with \<open>result = v\<close>; after
  \<open>beginDialog('bookingDialog', o)\<close> it runs the detail-collection dialog on \<open>o\<close>, which
  never waits for the user, and resumes the following step with that dialog's result. A
  prompt suspends the waterfall until the user's next message, and \<open>replaceDialog\<close> ends
  it: the run stops there with that request. A dialog id that is not registered makes the
  framework throw.
\<close>

definition continue :: "event list \<times> action \<Rightarrow> (jsval \<Rightarrow> outcome) \<Rightarrow> outcome" where
  "continue out following =
     (case out of (events, a) \<Rightarrow>
        (let resume = (\<lambda>v. and_then (following v) (\<lambda>(events', a'). Inr (events @ events', a')))
         in case a of
              Next v \<Rightarrow> resume v
            | BeginDialog d options \<Rightarrow>
                (if d = ''bookingDialog'' then resume (bookingDialog options)
                 else Inl (Error ''dialog not found''))
            | Prompt d text \<Rightarrow> Inr (events, a)
            | ReplaceDialog d options \<Rightarrow> Inr (events, a)))"

text \<open>The waterfall resumed after the prompt of \<open>introStep\<close> (the recogniser is
  configured and the user has answered), and the waterfall from its beginning.\<close>

definition continueMain :: "main_dialog \<Rightarrow> luis_result \<Rightarrow> outcome" where
  "continueMain this luisResult =
     and_then (actStep this luisResult) (\<lambda>out. continue out (finalStep this))"

definition beginMain :: "main_dialog \<Rightarrow> obj \<Rightarrow> luis_result \<Rightarrow> outcome" where
  "beginMain this options luisResult =
     and_then (introStep this options) (\<lambda>out. continue out (\<lambda>v. continueMain this luisResult))"


section \<open>Example inputs\<close>

text \<open>A record as \<open>actStep\<close> builds it for the intent \<open>eligibility\<close>, with entity
  objects that carry their value in a property of the entity's name.\<close>

definition example_userinfo :: obj where
  "example_userinfo =
     Map.empty(''type'' \<mapsto> Str ''eligibility'',
       ''visa_type'' \<mapsto> Obj (Map.empty(''visa_type'' \<mapsto> Str ''f1'')),
       ''work_type'' \<mapsto> Obj (Map.empty(''work_type'' \<mapsto> Str ''cpt'')),
       ''occupation_status'' \<mapsto> Obj Map.empty)"

text \<open>An orchestrator whose recogniser is not configured, one whose recogniser is, and a
  recogniser's answer with an intent the orchestrator has no case for.\<close>

definition unconfigured_dialog :: main_dialog where
  "unconfigured_dialog =
     \<lparr> luisRecognizer = Obj (Map.empty(''isConfigured'' \<mapsto> Bool False)),
       childDialog = Obj Map.empty, initialDialogId = MAIN_WATERFALL_DIALOG \<rparr>"

definition configured_dialog :: main_dialog where
  "configured_dialog =
     \<lparr> luisRecognizer = Obj (Map.empty(''isConfigured'' \<mapsto> Bool True)),
       childDialog = Obj Map.empty, initialDialogId = MAIN_WATERFALL_DIALOG \<rparr>"

definition example_luis :: luis_result where
  "example_luis =
     \<lparr> topIntent = ''None'', visaTypeEntities = Obj Map.empty,
       workTypeEntities = Obj Map.empty, occupationStatusEntities = Obj Map.empty,
       fromEntities = Obj Map.empty, toEntities = Obj Map.empty, travelDate = Undefined \<rparr>"


section \<open>Auxiliary facts\<close>

lemma js_get_empty: "js_get Map.empty k = Undefined"
  by (simp add: js_get_def)

lemma js_get_upd: "js_get (m(k \<mapsto> v)) k' = (if k' = k then v else js_get m k')"
  by (simp add: js_get_def)

lemma truthy_get_Some: "js_truthy (js_get m k) \<Longrightarrow> m k = Some (js_get m k)"
  by (cases "m k") (simp_all add: js_get_def)

lemma truthy_member: "js_truthy v \<Longrightarrow> \<exists>x. js_member v k = Inr x"
  by (cases v) simp_all

lemma loose_eq_lit_plain:
  "js_plain v \<Longrightarrow> s \<noteq> ''[object Object]'' \<Longrightarrow> js_loose_eq_lit v s = Inr (v = Str s)"
  by (cases v) (auto simp add: js_object_to_primitive_def and_then_def)

lemma and_then_Inr: "and_then (Inr v) f = f v"
  by (simp add: and_then_def)

lemma on_campus_text_Cons: "\<exists>t. on_campus_text = CHR ''O'' # t"
  by (simp add: on_campus_text_def)

lemma cpt_text_Cons: "\<exists>t. cpt_text = CHR ''S'' # t"
  by (simp add: cpt_text_def)

lemma opt_text_Cons: "\<exists>t. opt_text = CHR ''C'' # t"
  by (simp add: opt_text_def)

lemma bookingDialog_unfold:
  "bookingDialog options =
     snd (occupationStatusStep
            (fst (workTypeStep (fst (visaTypeStep options Undefined))
                    (snd (visaTypeStep options Undefined))))
            (snd (workTypeStep (fst (visaTypeStep options Undefined))
                    (snd (visaTypeStep options Undefined)))))"
  by (simp add: bookingDialog_def split: prod.splits)

lemma bookingDialog_result:
  "\<exists>userinfo. bookingDialog options = Obj userinfo
     \<and> js_get userinfo ''visa_type'' =
         (if js_truthy (js_get options ''visa_type'') then js_get options ''visa_type''
          else Str ''f1'')
     \<and> js_get userinfo ''work_type'' =
         (if js_truthy (js_get options ''work_type'') then js_get options ''work_type''
          else Str ''opt'')
     \<and> js_get userinfo ''occupation_status'' =
         (if js_truthy (js_get options ''occupation_status'')
          then js_get options ''occupation_status'' else Str ''student'')
     \<and> js_truthy (js_get userinfo ''visa_type'')
     \<and> js_truthy (js_get userinfo ''work_type'')
     \<and> js_truthy (js_get userinfo ''occupation_status'')"
  by (simp add: bookingDialog_unfold visaTypeStep_def workTypeStep_def occupationStatusStep_def
        Let_def js_get_upd)

lemma bookingDialog_populated:
  assumes "js_truthy (js_get u ''visa_type'')"
    and "js_truthy (js_get u ''work_type'')"
    and "js_truthy (js_get u ''occupation_status'')"
  shows "bookingDialog u = Obj u"
proof -
  have v: "u(''visa_type'' \<mapsto> js_get u ''visa_type'') = u"
    using truthy_get_Some [OF assms(1)] by (simp add: map_upd_triv)
  have w: "u(''work_type'' \<mapsto> js_get u ''work_type'') = u"
    using truthy_get_Some [OF assms(2)] by (simp add: map_upd_triv)
  show ?thesis
    using assms
    by (simp add: bookingDialog_unfold visaTypeStep_def workTypeStep_def
          occupationStatusStep_def Let_def v w)
qed

lemma bookingDialog_empty:
  "bookingDialog Map.empty =
     Obj (Map.empty(''visa_type'' \<mapsto> Str ''f1'', ''work_type'' \<mapsto> Str ''opt'',
            ''occupation_status'' \<mapsto> Str ''student''))"
  by (simp add: bookingDialog_unfold visaTypeStep_def workTypeStep_def occupationStatusStep_def
        Let_def js_get_upd js_get_empty)

lemma MainDialog_Inr:
  assumes "MainDialog recognizer child = Inr this"
  shows "luisRecognizer this = recognizer \<and> initialDialogId this = MAIN_WATERFALL_DIALOG
    \<and> js_truthy recognizer \<and> js_truthy child"
  using assms by (auto simp add: MainDialog_def split: if_splits)

lemma finalStep_timex_other:
  assumes "js_truthy result"
    and "js_member result ''type'' = Inr t"
    and "js_plain t"
    and "t \<notin> {Str ''eligibility'', Str ''visa_information'', Str ''procedure_auth''}"
    and "js_member result ''travelDate'' = Inr d"
    and "toNaturalLanguage d = Inr msg"
  shows "finalStep_timex toNaturalLanguage this result =
     Inr ([SendActivity (Str ''Something is wrong'')],
          ReplaceDialog (initialDialogId this) restart_options)"
proof -
  have t: "js_loose_eq_lit t ''eligibility'' = Inr False"
    "js_loose_eq_lit t ''visa_information'' = Inr False"
    "js_loose_eq_lit t ''procedure_auth'' = Inr False"
    using assms(4) by (simp_all add: loose_eq_lit_plain [OF assms(3)])
  show ?thesis
    by (simp add: finalStep_timex_def Let_def assms(1,2,5,6) t and_then_Inr)
qed

lemma finalStep_no_type:
  assumes "js_truthy result" and "js_member result ''type'' = Inr Undefined"
  shows "finalStep this result =
     Inr ([SendActivity (Str ''Something is wrong'')],
          ReplaceDialog (initialDialogId this) restart_options)"
proof -
  obtain d where d: "js_member result ''travelDate'' = Inr d"
    using truthy_member [OF assms(1)] by blast
  show ?thesis
    unfolding finalStep_def
    by (rule finalStep_timex_other [OF assms(1,2) _ _ d]) simp_all
qed

lemma messagefunc_own_toString:
  "messagefunc (Str ''f1'') (Obj (Map.empty(''toString'' \<mapsto> Str ''x''))) = Inl TypeError"
  by (simp add: messagefunc_def and_then_def js_object_to_primitive_def)

lemma finalStep_type_own_toString:
  "finalStep this (Obj (Map.empty(''type'' \<mapsto> Obj (Map.empty(''toString'' \<mapsto> Str ''x''))))) =
     Inl TypeError"
  by (simp add: finalStep_def finalStep_timex_def Let_def and_then_def js_get_def
        js_object_to_primitive_def)

lemma finalStep_falsy:
  "\<not> js_truthy result \<Longrightarrow>
   finalStep this result = Inr ([], ReplaceDialog (initialDialogId this) restart_options)"
  by (simp add: finalStep_def finalStep_timex_def Let_def)


section \<open>The detail-collection dialog fills every field\<close>

text \<open>
  C1. Whatever record the detail-collection dialog is begun with, its three steps return
  a record in which \<open>visa_type\<close>, \<open>work_type\<close> and \<open>occupation_status\<close> are all set:
  each is the incoming value where the record had one (one that the step's test \<open>!v\<close>
  counts as present), and the default \<open>f1\<close>, \<open>opt\<close>, \<open>student\<close> otherwise. No field
  of the three is left unset.
\<close>

theorem bookingDialog_fully_populated:
  "\<exists>userinfo. bookingDialog options = Obj userinfo
     \<and> js_get userinfo ''visa_type'' =
         (if js_truthy (js_get options ''visa_type'') then js_get options ''visa_type''
          else Str ''f1'')
     \<and> js_get userinfo ''work_type'' =
         (if js_truthy (js_get options ''work_type'') then js_get options ''work_type''
          else Str ''opt'')
     \<and> js_get userinfo ''occupation_status'' =
         (if js_truthy (js_get options ''occupation_status'')
          then js_get options ''occupation_status'' else Str ''student'')
     \<and> js_truthy (js_get userinfo ''visa_type'')
     \<and> js_truthy (js_get userinfo ''work_type'')
     \<and> js_truthy (js_get userinfo ''occupation_status'')"
  by (rule bookingDialog_result)

theorem bookingDialog_fully_populated_witness:
  "\<exists>userinfo. bookingDialog (Map.empty(''work_type'' \<mapsto> Str ''cpt'')) = Obj userinfo
     \<and> js_get userinfo ''visa_type'' = Str ''f1''
     \<and> js_get userinfo ''work_type'' = Str ''cpt''
     \<and> js_get userinfo ''occupation_status'' = Str ''student''"
  using bookingDialog_fully_populated [of "Map.empty(''work_type'' \<mapsto> Str ''cpt'')"]
  by (auto simp add: js_get_upd js_get_empty)

text \<open>
  C6. On a record in which the three fields are already set the dialog returns the record
  unchanged; hence the record the dialog returns on any input is returned unchanged by a
  second run.
\<close>

theorem bookingDialog_idempotent:
  "(js_truthy (js_get u ''visa_type'') \<and> js_truthy (js_get u ''work_type'')
      \<and> js_truthy (js_get u ''occupation_status'') \<longrightarrow> bookingDialog u = Obj u)
   \<and> (\<exists>u'. bookingDialog u = Obj u' \<and> bookingDialog u' = Obj u')"
proof
  show "js_truthy (js_get u ''visa_type'') \<and> js_truthy (js_get u ''work_type'')
      \<and> js_truthy (js_get u ''occupation_status'') \<longrightarrow> bookingDialog u = Obj u"
    by (simp add: bookingDialog_populated)
next
  obtain u' where u': "bookingDialog u = Obj u'"
    and t: "js_truthy (js_get u' ''visa_type'')" "js_truthy (js_get u' ''work_type'')"
      "js_truthy (js_get u' ''occupation_status'')"
    using bookingDialog_result [of u] by blast
  from t have "bookingDialog u' = Obj u'" by (rule bookingDialog_populated)
  with u' show "\<exists>u'. bookingDialog u = Obj u' \<and> bookingDialog u' = Obj u'" by blast
qed

theorem bookingDialog_idempotent_witness:
  "js_truthy (js_get example_userinfo ''visa_type'')
   \<and> js_truthy (js_get example_userinfo ''work_type'')
   \<and> js_truthy (js_get example_userinfo ''occupation_status'')
   \<and> bookingDialog example_userinfo = Obj example_userinfo
   \<and> (\<exists>u'. bookingDialog Map.empty = Obj u' \<and> bookingDialog u' = Obj u')"
proof -
  have t: "js_truthy (js_get example_userinfo ''visa_type'')
   \<and> js_truthy (js_get example_userinfo ''work_type'')
   \<and> js_truthy (js_get example_userinfo ''occupation_status'')"
    by (simp add: example_userinfo_def js_get_def)
  show ?thesis
    using t bookingDialog_idempotent [of example_userinfo] bookingDialog_idempotent [of Map.empty]
    by blast
qed

section \<open>The response table\<close>

text \<open>
  C2. For the pairs \<open>("f1", "on campus")\<close>, \<open>("f1", "cpt")\<close> and \<open>("f1", "opt")\<close>
  \<open>messagefunc\<close> returns the instructional text of that pair; the three texts are
  non-empty and pairwise distinct. For the visa type \<open>"h1b"\<close> and any work type it
  returns a string that contains \<open>h1b\<close>.
\<close>

theorem messagefunc_table:
  "messagefunc (Str ''f1'') (Str ''on campus'') = Inr (Str on_campus_text)
   \<and> messagefunc (Str ''f1'') (Str ''cpt'') = Inr (Str cpt_text)
   \<and> messagefunc (Str ''f1'') (Str ''opt'') = Inr (Str opt_text)
   \<and> on_campus_text \<noteq> [] \<and> cpt_text \<noteq> [] \<and> opt_text \<noteq> []
   \<and> on_campus_text \<noteq> cpt_text \<and> on_campus_text \<noteq> opt_text \<and> cpt_text \<noteq> opt_text
   \<and> (\<exists>text. messagefunc (Str ''h1b'') work_type = Inr (Str text) \<and> sublist ''h1b'' text)"
proof -
  obtain a b c where t: "on_campus_text = CHR ''O'' # a" "cpt_text = CHR ''S'' # b"
    "opt_text = CHR ''C'' # c"
    using on_campus_text_Cons cpt_text_Cons opt_text_Cons by blast
  have table: "messagefunc (Str ''f1'') (Str ''on campus'') = Inr (Str on_campus_text)"
    "messagefunc (Str ''f1'') (Str ''cpt'') = Inr (Str cpt_text)"
    "messagefunc (Str ''f1'') (Str ''opt'') = Inr (Str opt_text)"
    by (simp_all add: messagefunc_def and_then_Inr)
  have texts: "on_campus_text \<noteq> []" "cpt_text \<noteq> []" "opt_text \<noteq> []"
    "on_campus_text \<noteq> cpt_text" "on_campus_text \<noteq> opt_text" "cpt_text \<noteq> opt_text"
    by (simp_all add: t)
  have "messagefunc (Str ''h1b'') work_type =
      Inr (Str (''More information regarding the '' @ ''h1b'' @
           '' work authorization rules coming soon! Thanks!''))"
    by (simp add: messagefunc_def and_then_Inr)
  moreover have "sublist ''h1b'' (''More information regarding the '' @ ''h1b'' @
           '' work authorization rules coming soon! Thanks!'')"
    by (rule sublist_appendI)
  ultimately have "\<exists>text. messagefunc (Str ''h1b'') work_type = Inr (Str text) \<and> sublist ''h1b'' text"
    by blast
  with table texts show ?thesis by blast
qed

text \<open>
  C3. The claim that the \<open>f1\<close> visa type paired with a work type outside the three
  listed ones falls back to the "coming soon" text does not hold of the code. With the
  work type missing (\<open>undefined\<close>, as \<open>finalStep\<close> reads it from an entity object without
  a \<open>work_type\<close> property) and with the work type \<open>"stem opt"\<close>, \<open>messagefunc\<close> returns
  \<open>undefined\<close>, while the visa types other than \<open>f1\<close> do get the fallback text.
\<close>

theorem messagefunc_f1_unlisted_no_fallback:
  "messagefunc (Str ''f1'') Undefined = Inr Undefined
   \<and> messagefunc (Str ''f1'') (Str ''stem opt'') = Inr Undefined
   \<and> messagefunc (Str ''f2'') (Str ''stem opt'') =
       Inr (Str ''More information regarding the f2 work authorization rules coming soon! Thanks!'')"
  by (simp add: messagefunc_def and_then_Inr)

text \<open>
  C4. For the visa type \<open>"f1"\<close> and every work type other than \<open>"on campus"\<close>,
  \<open>"cpt"\<close> and \<open>"opt"\<close> the call of \<open>messagefunc\<close> completes without an error and
  its value is \<open>undefined\<close>: no branch that returns a string is taken. This is proved
  for the work types that are a primitive value (a string, \<open>undefined\<close>, \<open>null\<close>, a
  boolean) or an object without an own \<open>toString\<close> or \<open>valueOf\<close>; on an object with
  an own \<open>toString\<close> the first comparison throws (\<open>messagefunc_own_toString\<close>).
\<close>

theorem messagefunc_f1_gap:
  "js_plain work_type \<Longrightarrow>
   work_type \<notin> {Str ''on campus'', Str ''cpt'', Str ''opt''} \<Longrightarrow>
   messagefunc (Str ''f1'') work_type = Inr Undefined"
  by (simp add: messagefunc_def loose_eq_lit_plain and_then_Inr)

theorem messagefunc_f1_gap_witness:
  "js_plain (Str ''h1b'')
   \<and> Str ''h1b'' \<notin> {Str ''on campus'', Str ''cpt'', Str ''opt''}
   \<and> messagefunc (Str ''f1'') (Str ''h1b'') = Inr Undefined
   \<and> js_plain Undefined
   \<and> messagefunc (Str ''f1'') Undefined = Inr Undefined
   \<and> js_plain (Obj Map.empty)
   \<and> messagefunc (Str ''f1'') (Obj Map.empty) = Inr Undefined"
  using messagefunc_f1_gap [of "Str ''h1b''"] messagefunc_f1_gap [of Undefined]
    messagefunc_f1_gap [of "Obj Map.empty"]
  by simp


section \<open>The orchestrator\<close>

text \<open>
  C8. The constructor of \<open>MainDialog\<close> throws when the recogniser is missing
  (\<open>undefined\<close> or \<open>null\<close>) and when the detail-collection dialog is missing: with
  either collaborator absent no dialog is constructed.
\<close>

theorem MainDialog_missing_collaborator:
  "(recognizer \<in> {Undefined, Null} \<longrightarrow>
      MainDialog recognizer child =
        Inl (Error ''[MainDialog]: Missing parameter 'luisRecognizer' is required''))
   \<and> (child \<in> {Undefined, Null} \<longrightarrow> (\<exists>msg. MainDialog recognizer child = Inl (Error msg)))
   \<and> (child \<in> {Undefined, Null} \<and> js_truthy recognizer \<longrightarrow>
      MainDialog recognizer child =
        Inl (Error ''[MainDialog]: Missing parameter 'bookingDialog' is required''))"
  by (auto simp add: MainDialog_def)

theorem MainDialog_missing_collaborator_witness:
  "MainDialog Undefined (Obj Map.empty) =
     Inl (Error ''[MainDialog]: Missing parameter 'luisRecognizer' is required'')
   \<and> MainDialog Null Null =
     Inl (Error ''[MainDialog]: Missing parameter 'luisRecognizer' is required'')
   \<and> MainDialog (Obj Map.empty) Undefined =
     Inl (Error ''[MainDialog]: Missing parameter 'bookingDialog' is required'')
   \<and> MainDialog (Obj Map.empty) Null =
     Inl (Error ''[MainDialog]: Missing parameter 'bookingDialog' is required'')"
  using MainDialog_missing_collaborator [of Undefined "Obj Map.empty"]
    MainDialog_missing_collaborator [of Null Null]
    MainDialog_missing_collaborator [of "Obj Map.empty" Undefined]
    MainDialog_missing_collaborator [of "Obj Map.empty" Null]
  by simp

text \<open>
  C10. When the result handed to \<open>finalStep\<close> is truthy (the detail-collection dialog
  returned a record) and its \<open>type\<close> is none of \<open>eligibility\<close>, \<open>visa_information\<close>,
  \<open>procedure_auth\<close> (also when the record has no \<open>type\<close> at all, as the record of the
  path taken when the recogniser is not configured), the one activity \<open>finalStep\<close> sends
  is the text \<open>Something is wrong\<close>. This is proved for a type that is a primitive
  value or an object without an own \<open>toString\<close> or \<open>valueOf\<close>, and for a call of the
  date library on the record's \<open>travelDate\<close> that returns; otherwise the step throws
  before it sends anything (\<open>finalStep_type_own_toString\<close>).
\<close>

theorem finalStep_something_is_wrong:
  assumes "js_truthy result"
    and "js_member result ''type'' = Inr t"
    and "js_plain t"
    and "t \<notin> {Str ''eligibility'', Str ''visa_information'', Str ''procedure_auth''}"
    and "js_member result ''travelDate'' = Inr d"
    and "toNaturalLanguage d = Inr msg"
  shows "finalStep_timex toNaturalLanguage this result =
     Inr ([SendActivity (Str ''Something is wrong'')],
          ReplaceDialog (initialDialogId this) restart_options)"
  using assms by (rule finalStep_timex_other)

theorem finalStep_something_is_wrong_witness:
  "js_truthy (bookingDialog Map.empty)
   \<and> js_member (bookingDialog Map.empty) ''type'' = Inr Undefined
   \<and> js_plain Undefined
   \<and> Undefined \<notin> {Str ''eligibility'', Str ''visa_information'', Str ''procedure_auth''}
   \<and> js_member (bookingDialog Map.empty) ''travelDate'' = Inr Undefined
   \<and> finalStep unconfigured_dialog (bookingDialog Map.empty) =
       Inr ([SendActivity (Str ''Something is wrong'')],
            ReplaceDialog MAIN_WATERFALL_DIALOG restart_options)"
proof -
  have a: "js_truthy (bookingDialog Map.empty)"
    by (simp add: bookingDialog_empty)
  have b: "js_member (bookingDialog Map.empty) ''type'' = Inr Undefined"
    by (simp add: bookingDialog_empty js_get_def)
  have c: "js_plain Undefined" by simp
  have d: "Undefined \<notin> {Str ''eligibility'', Str ''visa_information'', Str ''procedure_auth''}"
    by simp
  have e: "js_member (bookingDialog Map.empty) ''travelDate'' = Inr Undefined"
    by (simp add: bookingDialog_empty js_get_def)
  have f: "(\<lambda>travelDate'. Inr []) Undefined = (Inr [] :: error + string)" by simp
  show ?thesis
    using a b c d e finalStep_something_is_wrong [OF a b c d e f, of unconfigured_dialog]
    by (simp add: unconfigured_dialog_def finalStep_def)
qed

text \<open>
  C7. In \<open>finalStep\<close> the visa-type argument of the response lookup is the nested
  property \<open>visa_type.visa_type\<close> of the record for all three types. The work-type
  argument is the nested property \<open>work_type.work_type\<close> when the record's type is
  \<open>eligibility\<close> or \<open>visa_information\<close>, and the value of \<open>work_type\<close> itself when the
  type is \<open>procedure_auth\<close>.
\<close>

theorem finalStep_work_type_shape:
  "js_member (js_get r ''visa_type'') ''visa_type'' = Inr visa \<longrightarrow>
     ((js_get r ''type'' = Str ''eligibility'' \<or> js_get r ''type'' = Str ''visa_information'')
        \<and> js_member (js_get r ''work_type'') ''work_type'' = Inr work \<longrightarrow>
      finalStep this (Obj r) =
        and_then (messagefunc visa work) (\<lambda>msg.
          Inr ([SendActivity msg], ReplaceDialog (initialDialogId this) restart_options)))
     \<and> (js_get r ''type'' = Str ''procedure_auth'' \<longrightarrow>
      finalStep this (Obj r) =
        and_then (messagefunc visa (js_get r ''work_type'')) (\<lambda>msg.
          Inr ([SendActivity msg], ReplaceDialog (initialDialogId this) restart_options)))"
  by (auto simp add: finalStep_def finalStep_timex_def Let_def and_then_Inr)

text \<open>The same entities under the two shapes: read as \<open>eligibility\<close> the record selects
  the CPT text; read as \<open>procedure_auth\<close> the lookup gets the entity object itself as work
  type and returns \<open>undefined\<close>.\<close>

theorem finalStep_work_type_shape_witness:
  "js_member (js_get example_userinfo ''visa_type'') ''visa_type'' = Inr (Str ''f1'')
   \<and> js_get example_userinfo ''type'' = Str ''eligibility''
   \<and> js_member (js_get example_userinfo ''work_type'') ''work_type'' = Inr (Str ''cpt'')
   \<and> finalStep configured_dialog (Obj example_userinfo) =
       Inr ([SendActivity (Str cpt_text)], ReplaceDialog MAIN_WATERFALL_DIALOG restart_options)
   \<and> js_get (example_userinfo(''type'' \<mapsto> Str ''procedure_auth'')) ''type'' =
       Str ''procedure_auth''
   \<and> finalStep configured_dialog (Obj (example_userinfo(''type'' \<mapsto> Str ''procedure_auth''))) =
       Inr ([SendActivity Undefined], ReplaceDialog MAIN_WATERFALL_DIALOG restart_options)"
proof -
  have v: "js_member (js_get example_userinfo ''visa_type'') ''visa_type'' = Inr (Str ''f1'')"
    and t: "js_get example_userinfo ''type'' = Str ''eligibility''"
    and w: "js_member (js_get example_userinfo ''work_type'') ''work_type'' = Inr (Str ''cpt'')"
    by (simp_all add: example_userinfo_def js_get_def)
  have v': "js_member (js_get (example_userinfo(''type'' \<mapsto> Str ''procedure_auth''))
                ''visa_type'') ''visa_type'' = Inr (Str ''f1'')"
    and t': "js_get (example_userinfo(''type'' \<mapsto> Str ''procedure_auth'')) ''type'' =
       Str ''procedure_auth''"
    and w': "js_get (example_userinfo(''type'' \<mapsto> Str ''procedure_auth'')) ''work_type'' =
       Obj (Map.empty(''work_type'' \<mapsto> Str ''cpt''))"
    by (simp_all add: example_userinfo_def js_get_def)
  have m: "messagefunc (Str ''f1'') (Str ''cpt'') = Inr (Str cpt_text)"
    "messagefunc (Str ''f1'') (Obj (Map.empty(''work_type'' \<mapsto> Str ''cpt''))) = Inr Undefined"
    by (simp_all add: messagefunc_def and_then_Inr js_object_to_primitive_def)
  have i: "initialDialogId configured_dialog = MAIN_WATERFALL_DIALOG"
    by (simp add: configured_dialog_def)
  show ?thesis
    using finalStep_work_type_shape
      [of example_userinfo "Str ''f1''" "Str ''cpt''" configured_dialog]
      finalStep_work_type_shape
      [of "example_userinfo(''type'' \<mapsto> Str ''procedure_auth'')" "Str ''f1''" "Str ''cpt''"
         configured_dialog]
    by (simp only: v t w v' t' w' m i and_then_Inr simp_thms)
qed

text \<open>
  C9. With a configured recogniser, an answer whose top intent is none of
  \<open>eligibility\<close>, \<open>visa_information\<close>, \<open>procedure_auth\<close>, \<open>BookFlight\<close>, \<open>GetWeather\<close>
  makes the orchestrator query the recogniser, send the "didn't get that" text with the
  intent's name and nothing else, and replace the dialog by the main waterfall with the
  restart options; begun with these, \<open>introStep\<close> prompts for
  \<open>What else can I do for you?\<close>.
\<close>

theorem unhandled_intent_restarts:
  assumes "MainDialog recognizer child = Inr this"
    and "js_member recognizer ''isConfigured'' = Inr c"
    and "js_truthy c"
    and "topIntent luisResult \<notin>
           {''eligibility'', ''visa_information'', ''procedure_auth'', ''BookFlight'',
            ''GetWeather''}"
  shows "continueMain this luisResult =
           Inr ([ExecuteLuisQuery,
                 SendActivity (Str (didnt_understand_text (topIntent luisResult)))],
                ReplaceDialog MAIN_WATERFALL_DIALOG restart_options)
         \<and> introStep this restart_options =
           Inr ([], Prompt ''TextPrompt'' (Str ''What else can I do for you?''))"
proof -
  have md: "luisRecognizer this = recognizer" "initialDialogId this = MAIN_WATERFALL_DIALOG"
    using MainDialog_Inr [OF assms(1)] by simp_all
  have act: "actStep this luisResult =
      Inr ([ExecuteLuisQuery, SendActivity (Str (didnt_understand_text (topIntent luisResult)))],
           Next Undefined)"
    using assms(3,4) by (simp add: actStep_def md assms(2) and_then_Inr)
  have fin: "finalStep this Undefined = Inr ([], ReplaceDialog MAIN_WATERFALL_DIALOG restart_options)"
    by (simp add: finalStep_falsy md)
  have "continueMain this luisResult =
           Inr ([ExecuteLuisQuery,
                 SendActivity (Str (didnt_understand_text (topIntent luisResult)))],
                ReplaceDialog MAIN_WATERFALL_DIALOG restart_options)"
    by (simp add: continueMain_def act continue_def fin and_then_Inr)
  moreover have "introStep this restart_options =
           Inr ([], Prompt ''TextPrompt'' (Str ''What else can I do for you?''))"
    using assms(3)
    by (simp add: introStep_def md assms(2) and_then_Inr restart_options_def js_get_def)
  ultimately show ?thesis by blast
qed

theorem unhandled_intent_restarts_witness:
  "MainDialog (Obj (Map.empty(''isConfigured'' \<mapsto> Bool True))) (Obj Map.empty) =
     Inr configured_dialog
   \<and> js_member (Obj (Map.empty(''isConfigured'' \<mapsto> Bool True))) ''isConfigured'' =
     Inr (Bool True)
   \<and> js_truthy (Bool True)
   \<and> topIntent example_luis \<notin>
        {''eligibility'', ''visa_information'', ''procedure_auth'', ''BookFlight'',
         ''GetWeather''}
   \<and> continueMain configured_dialog example_luis =
        Inr ([ExecuteLuisQuery,
              SendActivity (Str ''Sorry, I didn't get that. Please try asking in a different way (intent was None)'')],
             ReplaceDialog MAIN_WATERFALL_DIALOG restart_options)
   \<and> introStep configured_dialog restart_options =
        Inr ([], Prompt ''TextPrompt'' (Str ''What else can I do for you?''))"
proof -
  have a: "MainDialog (Obj (Map.empty(''isConfigured'' \<mapsto> Bool True))) (Obj Map.empty) =
     Inr configured_dialog"
    by (simp add: MainDialog_def configured_dialog_def)
  have b: "js_member (Obj (Map.empty(''isConfigured'' \<mapsto> Bool True))) ''isConfigured'' =
     Inr (Bool True)"
    by (simp add: js_get_def)
  have c: "js_truthy (Bool True)" by simp
  have d: "topIntent example_luis \<notin>
        {''eligibility'', ''visa_information'', ''procedure_auth'', ''BookFlight'',
         ''GetWeather''}"
    by (simp add: example_luis_def)
  have e: "didnt_understand_text (topIntent example_luis) =
     ''Sorry, I didn't get that. Please try asking in a different way (intent was None)''"
    by (simp add: didnt_understand_text_def example_luis_def)
  show ?thesis
    using a b c d unhandled_intent_restarts [OF a b c d]
    by (simp only: e simp_thms)
qed

text \<open>
  C5, as stated, fails. With a recogniser that is not configured the waterfall sends the
  configuration note and then the text \<open>Something is wrong\<close>; the OPT text is not
  among the activities sent.
\<close>

theorem unconfigured_reply_counterexample:
  "beginMain unconfigured_dialog Map.empty example_luis =
     Inr ([SendActivity (Str not_configured_text), SendActivity (Str ''Something is wrong'')],
          ReplaceDialog MAIN_WATERFALL_DIALOG restart_options)
   \<and> SendActivity (Str opt_text) \<notin>
       set [SendActivity (Str not_configured_text), SendActivity (Str ''Something is wrong'')]"
proof -
  have r: "js_member (luisRecognizer unconfigured_dialog) ''isConfigured'' = Inr (Bool False)"
    "initialDialogId unconfigured_dialog = MAIN_WATERFALL_DIALOG"
    by (simp_all add: unconfigured_dialog_def js_get_def)
  have intro: "introStep unconfigured_dialog Map.empty =
      Inr ([SendActivity (Str not_configured_text)], Next Undefined)"
    by (simp add: introStep_def r and_then_Inr)
  have act: "actStep unconfigured_dialog example_luis =
      Inr ([], BeginDialog ''bookingDialog'' Map.empty)"
    by (simp add: actStep_def r and_then_Inr)
  have t: "js_truthy (bookingDialog Map.empty)"
    "js_member (bookingDialog Map.empty) ''type'' = Inr Undefined"
    by (simp_all add: bookingDialog_empty js_get_def)
  have fin: "finalStep unconfigured_dialog (bookingDialog Map.empty) =
      Inr ([SendActivity (Str ''Something is wrong'')],
           ReplaceDialog MAIN_WATERFALL_DIALOG restart_options)"
    using finalStep_no_type [OF t, of unconfigured_dialog] by (simp add: r)
  have cont: "continueMain unconfigured_dialog example_luis =
      Inr ([SendActivity (Str ''Something is wrong'')],
           ReplaceDialog MAIN_WATERFALL_DIALOG restart_options)"
    by (simp add: continueMain_def act continue_def fin and_then_Inr)
  have run: "beginMain unconfigured_dialog Map.empty example_luis =
     Inr ([SendActivity (Str not_configured_text), SendActivity (Str ''Something is wrong'')],
          ReplaceDialog MAIN_WATERFALL_DIALOG restart_options)"
    by (simp add: beginMain_def intro continue_def cont and_then_Inr)
  obtain c where c: "opt_text = CHR ''C'' # c" using opt_text_Cons by blast
  have "SendActivity (Str opt_text) \<notin>
       set [SendActivity (Str not_configured_text), SendActivity (Str ''Something is wrong'')]"
    by (simp add: c not_configured_text_def)
  with run show ?thesis by blast
qed

text \<open>
  C5, amended. With a recogniser that is not configured the waterfall does not query the
  recogniser: \<open>introStep\<close> sends the configuration note, \<open>actStep\<close> begins the
  detail-collection dialog on an empty record, and the dialog fills in the defaults
  \<open>f1\<close>, \<open>opt\<close>, \<open>student\<close>. The record has no \<open>type\<close>, so the reply of
  \<open>finalStep\<close> is the text \<open>Something is wrong\<close>, after which the dialog is replaced
  by the main waterfall with the restart options.
\<close>

theorem unconfigured_reply:
  assumes "MainDialog recognizer child = Inr this"
    and "js_member recognizer ''isConfigured'' = Inr c"
    and "\<not> js_truthy c"
  shows "actStep this luisResult = Inr ([], BeginDialog ''bookingDialog'' Map.empty)
     \<and> bookingDialog Map.empty =
         Obj (Map.empty(''visa_type'' \<mapsto> Str ''f1'', ''work_type'' \<mapsto> Str ''opt'',
                ''occupation_status'' \<mapsto> Str ''student''))
     \<and> beginMain this options luisResult =
         Inr ([SendActivity (Str not_configured_text),
               SendActivity (Str ''Something is wrong'')],
              ReplaceDialog MAIN_WATERFALL_DIALOG restart_options)"
proof -
  have md: "luisRecognizer this = recognizer" "initialDialogId this = MAIN_WATERFALL_DIALOG"
    using MainDialog_Inr [OF assms(1)] by simp_all
  have intro: "introStep this options =
      Inr ([SendActivity (Str not_configured_text)], Next Undefined)"
    using assms(3) by (simp add: introStep_def md assms(2) and_then_Inr)
  have act: "actStep this luisResult = Inr ([], BeginDialog ''bookingDialog'' Map.empty)"
    using assms(3) by (simp add: actStep_def md assms(2) and_then_Inr)
  have t: "js_truthy (bookingDialog Map.empty)"
    "js_member (bookingDialog Map.empty) ''type'' = Inr Undefined"
    by (simp_all add: bookingDialog_empty js_get_def)
  have fin: "finalStep this (bookingDialog Map.empty) =
      Inr ([SendActivity (Str ''Something is wrong'')],
           ReplaceDialog MAIN_WATERFALL_DIALOG restart_options)"
    using finalStep_no_type [OF t, of this] by (simp add: md)
  have cont: "continueMain this luisResult =
      Inr ([SendActivity (Str ''Something is wrong'')],
           ReplaceDialog MAIN_WATERFALL_DIALOG restart_options)"
    by (simp add: continueMain_def act continue_def fin and_then_Inr)
  have "beginMain this options luisResult =
     Inr ([SendActivity (Str not_configured_text), SendActivity (Str ''Something is wrong'')],
          ReplaceDialog MAIN_WATERFALL_DIALOG restart_options)"
    by (simp add: beginMain_def intro continue_def cont and_then_Inr)
  with act bookingDialog_empty show ?thesis by blast
qed

theorem unconfigured_reply_witness:
  "MainDialog (Obj (Map.empty(''isConfigured'' \<mapsto> Bool False))) (Obj Map.empty) =
     Inr unconfigured_dialog
   \<and> js_member (Obj (Map.empty(''isConfigured'' \<mapsto> Bool False))) ''isConfigured'' =
     Inr (Bool False)
   \<and> \<not> js_truthy (Bool False)
   \<and> actStep unconfigured_dialog example_luis = Inr ([], BeginDialog ''bookingDialog'' Map.empty)
   \<and> beginMain unconfigured_dialog Map.empty example_luis =
       Inr ([SendActivity (Str not_configured_text),
             SendActivity (Str ''Something is wrong'')],
            ReplaceDialog MAIN_WATERFALL_DIALOG restart_options)"
proof -
  have a: "MainDialog (Obj (Map.empty(''isConfigured'' \<mapsto> Bool False))) (Obj Map.empty) =
     Inr unconfigured_dialog"
    by (simp add: MainDialog_def unconfigured_dialog_def)
  have b: "js_member (Obj (Map.empty(''isConfigured'' \<mapsto> Bool False))) ''isConfigured'' =
     Inr (Bool False)"
    by (simp add: js_get_def)
  have c: "\<not> js_truthy (Bool False)" by simp
  show ?thesis
    using a b c unconfigured_reply [OF a b c, of example_luis Map.empty]
    by blast
qed

end
